theory Spec2Isabelle
  imports Main
begin

text \<open>
  The API client and the hook layer of frext-web: \<open>src/lib/api/client.ts\<close> (the
  \<open>fetch\<close> wrapper, the domain operations, the auth sub-client) and
  \<open>src/lib/api/hooks/useApi.ts\<close> (the request-state hooks and the utility hooks), as
  functions on an explicit state. The network, the callbacks of the caller and the JSON
  codec are parameters; line numbers refer to these two files.
\<close>

section \<open>Strings and thrown values\<close>

text \<open>
  A JavaScript string is modelled as a \<^typ>\<open>string\<close> holding its UTF-8 bytes, so the
  localized messages of the client are byte lists. \<open>String.prototype.includes\<close> is the
  substring test below, and a number inside a template literal is its decimal notation.
\<close>

fun starts_with :: "string \<Rightarrow> string \<Rightarrow> bool" where
  "starts_with s [] = True"
| "starts_with [] (p # ps) = False"
| "starts_with (c # cs) (p # ps) = (c = p \<and> starts_with cs ps)"

fun str_includes :: "string \<Rightarrow> string \<Rightarrow> bool" where
  "str_includes [] pat = (pat = [])"
| "str_includes (c # cs) pat = (starts_with (c # cs) pat \<or> str_includes cs pat)"

fun string_of_nat :: "nat \<Rightarrow> string" where
  "string_of_nat n =
     (if n < 10 then [''0123456789'' ! n]
      else string_of_nat (n div 10) @ [''0123456789'' ! (n mod 10)])"

declare string_of_nat.simps [simp del]

text \<open>
  \<open>Number.prototype.toString\<close> on the integers the repository prints (ids, page numbers):
  the decimal notation, which is what JavaScript prints for every integer up to
  \<open>2^53\<close> in magnitude.
\<close>

definition string_of_int :: "int \<Rightarrow> string" where
  "string_of_int i = (if i < 0 then ''-'' @ string_of_nat (nat (- i)) else string_of_nat (nat i))"

text \<open>
  What a \<open>throw\<close> or a rejected promise carries: an \<open>Error\<close> instance with its \<open>name\<close>
  and \<open>message\<close> (a \<open>DOMException\<close> is one, too), or a value that is not an \<open>Error\<close>.
  \<open>new Error(m)\<close> has the name \<open>Error\<close>.
\<close>

datatype thrown = JsError (error_name: string) (error_message: string) | NonError

definition Error :: "string \<Rightarrow> thrown" where
  "Error m = JsError ''Error'' m"

text \<open>How a promise settles.\<close>

datatype 'a settled = Rejects thrown | Resolves 'a

text \<open>\<open>x || y\<close> for an optional string \<open>x\<close>: \<open>undefined\<close> and the empty string are falsy.\<close>

definition js_or :: "string option \<Rightarrow> string \<Rightarrow> string" where
  "js_or x y = (case x of None \<Rightarrow> y | Some s \<Rightarrow> if s = [] then y else s)"

text \<open>
  A JSON value as \<open>JSON.parse\<close> gives it, for the places where the source reads a value
  of type \<open>any\<close>. A number is held as the text \<open>String\<close> prints for it, an object as the
  list of its entries, each key once. \<open>truthy\<close> is the test of \<open>||\<close> and \<open>if\<close>; a number is
  falsy when it is zero (\<open>NaN\<close> is no JSON value).
\<close>

datatype json =
    JNull
  | JBool bool
  | JNumber string
  | JString string
  | JArray "json list"
  | JObject "(string \<times> json) list"

definition truthy :: "json \<Rightarrow> bool" where
  "truthy v =
     (case v of
        JNull \<Rightarrow> False
      | JBool b \<Rightarrow> b
      | JNumber t \<Rightarrow> t \<noteq> ''0''
      | JString s \<Rightarrow> s \<noteq> []
      | JArray xs \<Rightarrow> True
      | JObject entries \<Rightarrow> True)"

text \<open>
  The \<open>TypeError\<close>s and \<open>DOMException\<close>s of the platform that the code can meet. Their
  message texts are the engine's; the texts of V8 and of Firefox stand here.
\<close>

definition TypeError :: "string \<Rightarrow> thrown" where
  "TypeError m = JsError ''TypeError'' m"

definition NULL_PROPERTY_TEXT :: string where
  "NULL_PROPERTY_TEXT =
     ''Cannot read properties of null (reading '' @ [CHR 0x27] @ ''message'' @ [CHR 0x27] @ '')''"

definition NOT_PRIMITIVE_TEXT :: string where
  "NOT_PRIMITIVE_TEXT = ''Cannot convert object to primitive value''"

definition SecurityError :: thrown where
  "SecurityError = JsError ''SecurityError'' ''The operation is insecure.''"

definition QuotaExceededError :: thrown where
  "QuotaExceededError = JsError ''QuotaExceededError'' ''The quota has been exceeded.''"

definition ReferenceError :: thrown where
  "ReferenceError = JsError ''ReferenceError'' ''localStorage is not defined''"

text \<open>
  \<open>String(v)\<close>, the conversion \<open>new Error(v)\<close> applies to its argument. An array prints
  its elements joined by commas, \<open>null\<close> elements as the empty text. An object prints as
  \<open>[object Object]\<close>, unless it has an entry \<open>toString\<close> of its own: that is no function,
  and the conversion throws a \<open>TypeError\<close>.
\<close>

fun js_string :: "json \<Rightarrow> thrown + string"
  and js_join :: "json list \<Rightarrow> thrown + string" where
  "js_string JNull = Inr ''null''"
| "js_string (JBool b) = Inr (if b then ''true'' else ''false'')"
| "js_string (JNumber t) = Inr t"
| "js_string (JString s) = Inr s"
| "js_string (JArray xs) = js_join xs"
| "js_string (JObject entries) =
     (if ''toString'' \<in> fst ` set entries then Inl (TypeError NOT_PRIMITIVE_TEXT)
      else Inr ''[object Object]'')"
| "js_join [] = Inr []"
| "js_join [x] = (if x = JNull then Inr [] else js_string x)"
| "js_join (x # y # ys) =
     (case (if x = JNull then Inr [] else js_string x) of
        Inl e \<Rightarrow> Inl e
      | Inr s \<Rightarrow> (case js_join (y # ys) of Inl e \<Rightarrow> Inl e | Inr r \<Rightarrow> Inr (s @ '','' @ r)))"

text \<open>\<open>new Error(v)\<close>: the error made, or the \<open>TypeError\<close> of converting \<open>v\<close>.\<close>

definition new_Error :: "json \<Rightarrow> thrown" where
  "new_Error v = (case js_string v of Inl t \<Rightarrow> t | Inr s \<Rightarrow> Error s)"

text \<open>
  The two fixed messages of \<open>FrextApiClient.request\<close> (client.ts, lines 153 and 159), in
  Japanese: "the request timed out, retry after a while" and "cannot connect to the
  frext-api server, check the network connection".
\<close>

definition TIMEOUT_MESSAGE :: string where
  "TIMEOUT_MESSAGE =
     [CHR 0xE3, CHR 0x83, CHR 0xAA, CHR 0xE3, CHR 0x82, CHR 0xAF, CHR 0xE3, CHR 0x82, CHR
     0xA8, CHR 0xE3, CHR 0x82, CHR 0xB9, CHR 0xE3, CHR 0x83, CHR 0x88, CHR 0xE3, CHR 0x81,
     CHR 0x8C, CHR 0xE3, CHR 0x82, CHR 0xBF, CHR 0xE3, CHR 0x82, CHR 0xA4, CHR 0xE3, CHR
     0x83, CHR 0xA0, CHR 0xE3, CHR 0x82, CHR 0xA2, CHR 0xE3, CHR 0x82, CHR 0xA6, CHR 0xE3,
     CHR 0x83, CHR 0x88, CHR 0xE3, CHR 0x81, CHR 0x97, CHR 0xE3, CHR 0x81, CHR 0xBE, CHR
     0xE3, CHR 0x81, CHR 0x97, CHR 0xE3, CHR 0x81, CHR 0x9F, CHR 0xE3, CHR 0x80, CHR 0x82,
     CHR 0xE6, CHR 0x99, CHR 0x82, CHR 0xE9, CHR 0x96, CHR 0x93, CHR 0xE3, CHR 0x82, CHR
     0x92, CHR 0xE3, CHR 0x81, CHR 0x8A, CHR 0xE3, CHR 0x81, CHR 0x84, CHR 0xE3, CHR 0x81,
     CHR 0xA6, CHR 0xE5, CHR 0x86, CHR 0x8D, CHR 0xE8, CHR 0xA9, CHR 0xA6, CHR 0xE8, CHR
     0xA1, CHR 0x8C, CHR 0xE3, CHR 0x81, CHR 0x97, CHR 0xE3, CHR 0x81, CHR 0xA6, CHR 0xE3,
     CHR 0x81, CHR 0x8F, CHR 0xE3, CHR 0x81, CHR 0xA0, CHR 0xE3, CHR 0x81, CHR 0x95, CHR
     0xE3, CHR 0x81, CHR 0x84, CHR 0xE3, CHR 0x80, CHR 0x82]"

definition NETWORK_MESSAGE :: string where
  "NETWORK_MESSAGE =
     ''frext-api'' @ [CHR 0xE3, CHR 0x82, CHR 0xB5, CHR 0xE3, CHR 0x83, CHR 0xBC, CHR 0xE3,
     CHR 0x83, CHR 0x90, CHR 0xE3, CHR 0x83, CHR 0xBC, CHR 0xE3, CHR 0x81, CHR 0xAB, CHR
     0xE6, CHR 0x8E, CHR 0xA5, CHR 0xE7, CHR 0xB6, CHR 0x9A, CHR 0xE3, CHR 0x81, CHR 0xA7,
     CHR 0xE3, CHR 0x81, CHR 0x8D, CHR 0xE3, CHR 0x81, CHR 0xBE, CHR 0xE3, CHR 0x81, CHR
     0x9B, CHR 0xE3, CHR 0x82, CHR 0x93, CHR 0xE3, CHR 0x80, CHR 0x82, CHR 0xE3, CHR 0x83,
     CHR 0x8D, CHR 0xE3, CHR 0x83, CHR 0x83, CHR 0xE3, CHR 0x83, CHR 0x88, CHR 0xE3, CHR
     0x83, CHR 0xAF, CHR 0xE3, CHR 0x83, CHR 0xBC, CHR 0xE3, CHR 0x82, CHR 0xAF, CHR 0xE6,
     CHR 0x8E, CHR 0xA5, CHR 0xE7, CHR 0xB6, CHR 0x9A, CHR 0xE3, CHR 0x82, CHR 0x92, CHR
     0xE7, CHR 0xA2, CHR 0xBA, CHR 0xE8, CHR 0xAA, CHR 0x8D, CHR 0xE3, CHR 0x81, CHR 0x97,
     CHR 0xE3, CHR 0x81, CHR 0xA6, CHR 0xE3, CHR 0x81, CHR 0x8F, CHR 0xE3, CHR 0x81, CHR
     0xA0, CHR 0xE3, CHR 0x81, CHR 0x95, CHR 0xE3, CHR 0x81, CHR 0x84, CHR 0xE3, CHR 0x80,
     CHR 0x82]"

section \<open>The API client (client.ts)\<close>

text \<open>
  \<open>ApiResponse<T>\<close>: the envelope of every backend answer. The payload type \<open>'p\<close> stands
  for \<open>T\<close>; at every use in the repository \<open>T\<close> is an object type, so \<open>response.data\<close> is
  truthy exactly when the field is present.
\<close>

record 'p ApiResponse =
  success :: bool
  data :: "'p option"
  error :: "string option"
  message :: "string option"

type_synonym header_map = "string \<rightharpoonup> string"

datatype File = File (file_name: string) (file_size: nat)

record OCROptions =
  languageHints :: "string list option"
  documentType :: "string option"

text \<open>
  A \<open>FormData\<close> is the list of its appended entries; \<open>JsonPart o\<close> is the entry whose
  value is \<open>JSON.stringify(o)\<close>. A request body is the JSON text of a value
  (\<open>JsonText d\<close> for \<open>JSON.stringify(d)\<close>) or a \<open>FormData\<close>.
\<close>

datatype form_value = FilePart File | TextPart string | JsonPart OCROptions

type_synonym FormData = "(string \<times> form_value) list"

datatype 'd BodyInit = JsonText 'd | Multipart FormData

record 'd RequestInit =
  "method" :: "string option"
  headers :: "header_map option"
  body :: "'d BodyInit option"
  signal :: "nat option"

text \<open>
  What the server sends back: the status line and what \<open>response.json()\<close> settles to.
  \<open>response.ok\<close> is true for the statuses 200 to 299. The body is read once. When the
  response is ok, line 140 reads it at the type \<open>request\<close> declares, \<open>ApiResponse<T>\<close>, and
  \<open>json\<close> is how the lines 140 to 142 go on: the envelope read, or the error thrown there
  (the rejection for a body that is no JSON, the \<open>TypeError\<close> of reading \<open>success\<close> on
  \<open>null\<close>). The client checks no shape: a field the body lacks is absent from the
  envelope. When the response is not ok, line 136 reads the body as \<open>any\<close>, and
  \<open>json_untyped\<close> is that reading: any JSON value, or the rejection for a body that is
  no JSON.
\<close>

record 'p Response =
  status :: nat
  statusText :: string
  json :: "'p ApiResponse settled"
  json_untyped :: "json settled"

definition ok :: "'p Response \<Rightarrow> bool" where
  "ok response = (200 \<le> status response \<and> status response \<le> 299)"

text \<open>
  The network is a parameter of every operation: \<open>fetch url config\<close> is how the promise
  of that call settles.
\<close>

type_synonym ('d, 'p) fetch = "string \<Rightarrow> 'd RequestInit \<Rightarrow> 'p Response settled"

text \<open>
  The browser and the module state. Header objects live in a store and are held by
  reference (an address), as \<open>API_CONFIG.headers\<close> and \<open>this.defaultHeaders\<close> are in the
  source. \<open>issued\<close> records every call of \<open>fetch\<close>, oldest first.

  \<open>localStorage\<close> is one of three: \<open>NoWindow\<close> where \<open>typeof window === 'undefined'\<close> (as
  during server-side rendering); \<open>Blocked\<close> where the document is denied a storage area,
  so that reading \<open>window.localStorage\<close> throws a \<open>SecurityError\<close>; or the storage
  \<open>Area\<close> with its entries and the room left under its quota. An entry takes the room
  of its key and its value.
\<close>

datatype Storage = NoWindow | Blocked | Area "string \<rightharpoonup> string" nat

type_synonym addr = nat

record 'd world =
  heap :: "addr \<Rightarrow> header_map"
  localStorage :: Storage
  NEXT_PUBLIC_API_BASE_URL :: "string option"
  issued :: "(string \<times> 'd RequestInit) list"

definition window :: "'d world \<Rightarrow> bool" where
  "window w = (localStorage w \<noteq> NoWindow)"

text \<open>What the storage area holds under a key; nothing where there is no area.\<close>

definition getItem :: "string \<Rightarrow> 'd world \<Rightarrow> string option" where
  "getItem k w = (case localStorage w of Area entries room \<Rightarrow> entries k | _ \<Rightarrow> None)"

definition entry_size :: "string \<Rightarrow> string option \<Rightarrow> nat" where
  "entry_size k v = (case v of None \<Rightarrow> 0 | Some s \<Rightarrow> length k + length s)"

text \<open>
  The three calls the source makes on \<open>localStorage\<close>. Each throws where the storage is
  blocked; \<open>setItem\<close> also throws a \<open>QuotaExceededError\<close>, and stores nothing, when the
  new entry does not fit into the room left and the room of the entry it replaces.
\<close>

definition localStorage_getItem ::
  "string \<Rightarrow> 'd world \<Rightarrow> (thrown + string option) \<times> 'd world" where
  "localStorage_getItem k w =
     (case localStorage w of
        NoWindow \<Rightarrow> (Inl ReferenceError, w)
      | Blocked \<Rightarrow> (Inl SecurityError, w)
      | Area entries room \<Rightarrow> (Inr (entries k), w))"

definition localStorage_setItem ::
  "string \<Rightarrow> string \<Rightarrow> 'd world \<Rightarrow> (thrown + unit) \<times> 'd world" where
  "localStorage_setItem k v w =
     (case localStorage w of
        NoWindow \<Rightarrow> (Inl ReferenceError, w)
      | Blocked \<Rightarrow> (Inl SecurityError, w)
      | Area entries room \<Rightarrow>
          if length k + length v \<le> room + entry_size k (entries k)
          then (Inr (),
                w\<lparr>localStorage := Area (entries(k \<mapsto> v))
                     (room + entry_size k (entries k) - (length k + length v))\<rparr>)
          else (Inl QuotaExceededError, w))"

definition localStorage_removeItem ::
  "string \<Rightarrow> 'd world \<Rightarrow> (thrown + unit) \<times> 'd world" where
  "localStorage_removeItem k w =
     (case localStorage w of
        NoWindow \<Rightarrow> (Inl ReferenceError, w)
      | Blocked \<Rightarrow> (Inl SecurityError, w)
      | Area entries room \<Rightarrow>
          (Inr (), w\<lparr>localStorage := Area (entries(k := None)) (room + entry_size k (entries k))\<rparr>))"

text \<open>\<open>API_CONFIG\<close> (lines 77 to 84); \<open>API_CONFIG_headers\<close> is the address of its \<open>headers\<close> object.\<close>

definition API_CONFIG_baseUrl :: "'d world \<Rightarrow> string" where
  "API_CONFIG_baseUrl w = js_or (NEXT_PUBLIC_API_BASE_URL w) ''http://localhost:3001''"

definition API_CONFIG_apiPrefix :: string where
  "API_CONFIG_apiPrefix = ''/api/v1''"

definition API_CONFIG_timeout :: nat where
  "API_CONFIG_timeout = 30000"

definition API_CONFIG_headers :: addr where
  "API_CONFIG_headers = 0"

text \<open>The world when the module has been loaded: the object literal of line 81 is in the store.\<close>

definition module_loaded :: "Storage \<Rightarrow> string option \<Rightarrow> 'd world" where
  "module_loaded storage env =
     \<lparr>heap = (\<lambda>a. Map.empty)(API_CONFIG_headers := [''Content-Type'' \<mapsto> ''application/json'']),
      localStorage = storage, NEXT_PUBLIC_API_BASE_URL = env, issued = []\<rparr>"

record FrextApiClient =
  baseUrl :: string
  defaultHeaders :: addr

text \<open>The constructor (lines 93 to 96) stores the reference \<open>API_CONFIG.headers\<close>, not a copy.\<close>

definition new_FrextApiClient :: "string \<Rightarrow> FrextApiClient" where
  "new_FrextApiClient url =
     \<lparr>baseUrl = url @ API_CONFIG_apiPrefix, defaultHeaders = API_CONFIG_headers\<rparr>"

definition setAuthToken :: "FrextApiClient \<Rightarrow> string \<Rightarrow> 'd world \<Rightarrow> 'd world" where
  "setAuthToken c token w =
     w\<lparr>heap := (heap w)(defaultHeaders c :=
          (heap w (defaultHeaders c))(''Authorization'' \<mapsto> ''Bearer '' @ token))\<rparr>"

definition clearAuthToken :: "FrextApiClient \<Rightarrow> 'd world \<Rightarrow> 'd world" where
  "clearAuthToken c w =
     w\<lparr>heap := (heap w)(defaultHeaders c := (heap w (defaultHeaders c))(''Authorization'' := None))\<rparr>"

text \<open>
  \<open>request\<close> (lines 115 to 169). \<open>request_config\<close> is the \<open>config\<close> object of lines 121 to
  128: a later spread overrides an earlier one. \<open>request_try\<close> is the body of the \<open>try\<close>
  from the settled \<open>fetch\<close> on: \<open>Inl\<close> is a throw, \<open>Inr\<close> the returned value.
  \<open>request_catch\<close> is the \<open>catch\<close> block. \<open>errorData_message\<close> is the read
  \<open>errorData.message\<close> of line 137: it throws on \<open>null\<close>, finds the entry of an object
  and is \<open>undefined\<close> on every other value.
\<close>

definition errorData :: "'p Response \<Rightarrow> json" where
  "errorData response = (case json_untyped response of Rejects e \<Rightarrow> JObject [] | Resolves j \<Rightarrow> j)"

definition errorData_message :: "json \<Rightarrow> thrown + json option" where
  "errorData_message j =
     (case j of
        JNull \<Rightarrow> Inl (TypeError NULL_PROPERTY_TEXT)
      | JObject entries \<Rightarrow> Inr (map_of entries ''message'')
      | _ \<Rightarrow> Inr None)"

definition request_config :: "FrextApiClient \<Rightarrow> 'd RequestInit \<Rightarrow> 'd world \<Rightarrow> 'd RequestInit" where
  "request_config c options w =
     options\<lparr>headers := Some (heap w (defaultHeaders c) ++
                (case headers options of None \<Rightarrow> Map.empty | Some h \<Rightarrow> h)),
             signal := Some API_CONFIG_timeout\<rparr>"

definition http_status_message :: "'p Response \<Rightarrow> string" where
  "http_status_message response =
     ''HTTP '' @ string_of_nat (status response) @ '': '' @ statusText response"

text \<open>\<open>errorData.message || `HTTP ${response.status}: ${response.statusText}`\<close>.\<close>

definition error_argument :: "json option \<Rightarrow> 'p Response \<Rightarrow> json" where
  "error_argument m response =
     (case m of
        None \<Rightarrow> JString (http_status_message response)
      | Some v \<Rightarrow> if truthy v then v else JString (http_status_message response))"

definition request_try :: "'p Response settled \<Rightarrow> thrown + 'p ApiResponse" where
  "request_try fetched =
     (case fetched of
        Rejects e \<Rightarrow> Inl e
      | Resolves response \<Rightarrow>
          if \<not> ok response then
            (case errorData_message (errorData response) of
               Inl t \<Rightarrow> Inl t
             | Inr m \<Rightarrow> Inl (new_Error (error_argument m response)))
          else (case json response of Rejects e \<Rightarrow> Inl e | Resolves d \<Rightarrow> Inr d))"

definition failure :: "string \<Rightarrow> 'p ApiResponse" where
  "failure m = \<lparr>success = False, data = None, error = Some m, message = None\<rparr>"

definition request_catch :: "thrown \<Rightarrow> thrown + 'p ApiResponse" where
  "request_catch e =
     (case e of
        JsError name msg \<Rightarrow>
          if name = ''AbortError'' then Inr (failure TIMEOUT_MESSAGE)
          else if str_includes msg ''NetworkError'' \<or> str_includes msg ''Failed to fetch''
          then Inr (failure NETWORK_MESSAGE)
          else Inr (failure msg)
      | NonError \<Rightarrow> Inr (failure ''Unknown error occurred''))"

definition request ::
  "('d, 'p) fetch \<Rightarrow> FrextApiClient \<Rightarrow> string \<Rightarrow> 'd RequestInit \<Rightarrow> 'd world
     \<Rightarrow> (thrown + 'p ApiResponse) \<times> 'd world" where
  "request fetch c endpoint options w =
     (let url = baseUrl c @ endpoint;
          config = request_config c options w
      in (case request_try (fetch url config) of
            Inr d \<Rightarrow> Inr d
          | Inl e \<Rightarrow> request_catch e,
          w\<lparr>issued := issued w @ [(url, config)]\<rparr>))"

definition no_options :: "'d RequestInit" where
  "no_options = \<lparr>method = None, headers = None, body = None, signal = None\<rparr>"

definition get ::
  "('d, 'p) fetch \<Rightarrow> FrextApiClient \<Rightarrow> string \<Rightarrow> 'd world \<Rightarrow> (thrown + 'p ApiResponse) \<times> 'd world" where
  "get fetch c endpoint w = request fetch c endpoint (no_options\<lparr>method := Some ''GET''\<rparr>) w"

text \<open>
  \<open>post\<close> (lines 181 to 186): \<open>data\<close> is \<open>None\<close> for \<open>undefined\<close> and an object otherwise, and
  \<open>JSON.stringify\<close> is taken to succeed on it.
\<close>

definition post ::
  "('d, 'p) fetch \<Rightarrow> FrextApiClient \<Rightarrow> string \<Rightarrow> 'd option \<Rightarrow> 'd world
     \<Rightarrow> (thrown + 'p ApiResponse) \<times> 'd world" where
  "post fetch c endpoint d w =
     request fetch c endpoint
       (no_options\<lparr>method := Some ''POST'', body := map_option JsonText d\<rparr>) w"

text \<open>
  \<open>postFormData\<close> (lines 191 to 200): a copy of the default headers without
  \<open>Content-Type\<close> is passed as \<open>options.headers\<close>.
\<close>

definition postFormData ::
  "('d, 'p) fetch \<Rightarrow> FrextApiClient \<Rightarrow> string \<Rightarrow> FormData \<Rightarrow> 'd world
     \<Rightarrow> (thrown + 'p ApiResponse) \<times> 'd world" where
  "postFormData fetch c endpoint formData w =
     (let hdrs = (heap w (defaultHeaders c))(''Content-Type'' := None)
      in request fetch c endpoint
           (no_options\<lparr>method := Some ''POST'', body := Some (Multipart formData),
                        headers := Some hdrs\<rparr>) w)"


text \<open>The singleton of line 211.\<close>

definition frextApiClient :: "'d world \<Rightarrow> FrextApiClient" where
  "frextApiClient w = new_FrextApiClient (API_CONFIG_baseUrl w)"

section \<open>Domain operations and the auth sub-client (client.ts)\<close>

text \<open>
  An \<open>async\<close> function returns \<open>Inl e\<close> when its promise rejects with \<open>e\<close> and \<open>Inr v\<close>
  when it resolves to \<open>v\<close>, together with the world it leaves. \<open>await m f\<close> continues
  with \<open>f\<close> after \<open>m\<close> has resolved, and rejects as \<open>m\<close> does otherwise.
\<close>

definition await ::
  "(thrown + 'a) \<times> 's \<Rightarrow> ('a \<Rightarrow> 's \<Rightarrow> (thrown + 'b) \<times> 's) \<Rightarrow> (thrown + 'b) \<times> 's" where
  "await m f = (case m of (Inl e, s) \<Rightarrow> (Inl e, s) | (Inr v, s) \<Rightarrow> f v s)"

record OCRRequest =
  ocr_image :: File
  ocr_templateId :: "int option"
  ocr_options :: "OCROptions option"

record 'p GPTRequest =
  gpt_ocrResult :: 'p
  gpt_templateId :: "int option"
  gpt_customPrompt :: "string option"

record 'p SaveRequest =
  save_ocrResult :: 'p
  save_gptResult :: 'p
  save_templateId :: "int option"
  save_metadata :: "'p option"

text \<open>The values the repository passes to \<open>post\<close> as \<open>data\<close>.\<close>

datatype 'p post_data =
    GPTData "'p GPTRequest"
  | SaveData "'p SaveRequest"
  | LoginData string string
  | SignupData string string string

type_synonym 'p net = "('p post_data, 'p) fetch"
type_synonym 'p browser = "'p post_data world"

text \<open>
  The form of \<open>processOCR\<close> and \<open>processComplete\<close> (lines 217 to 226): \<open>templateId\<close> is
  appended when it is truthy, that is, present and not \<open>0\<close>.
\<close>

definition ocr_formData :: "OCRRequest \<Rightarrow> FormData" where
  "ocr_formData r =
     [(''image'', FilePart (ocr_image r))] @
     (case ocr_templateId r of
        None \<Rightarrow> []
      | Some n \<Rightarrow> if n = 0 then [] else [(''templateId'', TextPart (string_of_int n))]) @
     (case ocr_options r of None \<Rightarrow> [] | Some opts \<Rightarrow> [(''options'', JsonPart opts)])"

definition processOCR :: "'p net \<Rightarrow> OCRRequest \<Rightarrow> 'p browser \<Rightarrow> (thrown + 'p ApiResponse) \<times> 'p browser" where
  "processOCR fetch r w = postFormData fetch (frextApiClient w) ''/ocr/process'' (ocr_formData r) w"

definition processGPT :: "'p net \<Rightarrow> 'p GPTRequest \<Rightarrow> 'p browser \<Rightarrow> (thrown + 'p ApiResponse) \<times> 'p browser" where
  "processGPT fetch r w = post fetch (frextApiClient w) ''/gpt/process'' (Some (GPTData r)) w"



















subsection \<open>authApi (lines 358 to 431)\<close>



definition logout :: "'p net \<Rightarrow> 'p browser \<Rightarrow> (thrown + 'p ApiResponse) \<times> 'p browser" where
  "logout fetch w =
     await (post fetch (frextApiClient w) ''/auth/logout'' None w)
       (\<lambda>response w1.
          let w2 = clearAuthToken (frextApiClient w1) w1
          in if window w2
             then await (localStorage_removeItem ''frext_auth_token'' w2) (\<lambda>u w3. (Inr response, w3))
             else (Inr response, w2))"


definition verifyToken :: "'p net \<Rightarrow> string \<Rightarrow> 'p browser \<Rightarrow> (thrown + 'p ApiResponse) \<times> 'p browser" where
  "verifyToken fetch token w =
     get fetch (frextApiClient w) ''/auth/verify'' (setAuthToken (frextApiClient w) token w)"

text \<open>
  \<open>autoLogin\<close> (lines 417 to 430): the read of the saved token stands before the \<open>try\<close>,
  the removal in the \<open>catch\<close> block.
\<close>

definition autoLogin :: "'p net \<Rightarrow> 'p browser \<Rightarrow> (thrown + bool) \<times> 'p browser" where
  "autoLogin fetch w =
     (if \<not> window w then (Inr False, w)
      else await (localStorage_getItem ''frext_auth_token'' w)
        (\<lambda>saved w0.
           case saved of
             None \<Rightarrow> (Inr False, w0)
           | Some savedToken \<Rightarrow>
               if savedToken = [] then (Inr False, w0)
               else (case verifyToken fetch savedToken w0 of
                       (Inr response, w') \<Rightarrow> (Inr (success response), w')
                     | (Inl e, w') \<Rightarrow>
                         await (localStorage_removeItem ''frext_auth_token'' w')
                           (\<lambda>u w''. (Inr False, w'')))))"

section \<open>Request-state hooks (useApi.ts)\<close>


definition OCR_FAILED :: string where
  "OCR_FAILED =
     ''OCR'' @ [CHR 0xE5, CHR 0x87, CHR 0xA6, CHR 0xE7, CHR 0x90, CHR 0x86, CHR 0xE3, CHR
     0x81, CHR 0xAB, CHR 0xE5, CHR 0xA4, CHR 0xB1, CHR 0xE6, CHR 0x95, CHR 0x97, CHR 0xE3,
     CHR 0x81, CHR 0x97, CHR 0xE3, CHR 0x81, CHR 0xBE, CHR 0xE3, CHR 0x81, CHR 0x97, CHR
     0xE3, CHR 0x81, CHR 0x9F]"

definition GPT_FAILED :: string where
  "GPT_FAILED =
     ''GPT'' @ [CHR 0xE5, CHR 0x87, CHR 0xA6, CHR 0xE7, CHR 0x90, CHR 0x86, CHR 0xE3, CHR
     0x81, CHR 0xAB, CHR 0xE5, CHR 0xA4, CHR 0xB1, CHR 0xE6, CHR 0x95, CHR 0x97, CHR 0xE3,
     CHR 0x81, CHR 0x97, CHR 0xE3, CHR 0x81, CHR 0xBE, CHR 0xE3, CHR 0x81, CHR 0x97, CHR
     0xE3, CHR 0x81, CHR 0x9F]"

definition PROCESS_FAILED :: string where
  "PROCESS_FAILED =
     [CHR 0xE5, CHR 0x87, CHR 0xA6, CHR 0xE7, CHR 0x90, CHR 0x86, CHR 0xE3, CHR 0x81, CHR
     0xAB, CHR 0xE5, CHR 0xA4, CHR 0xB1, CHR 0xE6, CHR 0x95, CHR 0x97, CHR 0xE3, CHR 0x81,
     CHR 0x97, CHR 0xE3, CHR 0x81, CHR 0xBE, CHR 0xE3, CHR 0x81, CHR 0x97, CHR 0xE3, CHR
     0x81, CHR 0x9F]"



definition STAGE_UPLOADING :: string where
  "STAGE_UPLOADING =
     ''frext-api'' @ [CHR 0xE3, CHR 0x81, CHR 0xAB, CHR 0xE7, CHR 0x94, CHR 0xBB, CHR 0xE5,
     CHR 0x83, CHR 0x8F, CHR 0xE3, CHR 0x82, CHR 0x92, CHR 0xE3, CHR 0x82, CHR 0xA2, CHR
     0xE3, CHR 0x83, CHR 0x83, CHR 0xE3, CHR 0x83, CHR 0x97, CHR 0xE3, CHR 0x83, CHR 0xAD,
     CHR 0xE3, CHR 0x83, CHR 0xBC, CHR 0xE3, CHR 0x83, CHR 0x89, CHR 0xE4, CHR 0xB8, CHR
     0xAD] @ ''...''"





definition STAGE_OCR :: string where
  "STAGE_OCR =
     ''OCR'' @ [CHR 0xE5, CHR 0x87, CHR 0xA6, CHR 0xE7, CHR 0x90, CHR 0x86, CHR 0xE4, CHR
     0xB8, CHR 0xAD] @ ''...''"

definition STAGE_GPT :: string where
  "STAGE_GPT =
     ''AI'' @ [CHR 0xE5, CHR 0x88, CHR 0x86, CHR 0xE6, CHR 0x9E, CHR 0x90, CHR 0xE4, CHR
     0xB8, CHR 0xAD] @ ''...''"

definition STAGE_DONE :: string where
  "STAGE_DONE =
     [CHR 0xE5, CHR 0x87, CHR 0xA6, CHR 0xE7, CHR 0x90, CHR 0x86, CHR 0xE5, CHR 0xAE, CHR
     0x8C, CHR 0xE4, CHR 0xBA, CHR 0x86]"

text \<open>
  A hook run threads the hook's state and the world. \<open>setState\<close> with an updater
  applies it to the latest state; \<open>setState\<close> with an object is the constant updater.
  \<open>onProgress\<close> is the caller's optional callback: it returns normally (\<open>None\<close>) or
  throws. \<open>error instanceof Error ? error.message : fallback\<close> is \<open>message_or\<close>.
\<close>

definition return :: "'a \<Rightarrow> 's \<Rightarrow> (thrown + 'a) \<times> 's" where
  "return v s = (Inr v, s)"

definition throw :: "thrown \<Rightarrow> 's \<Rightarrow> (thrown + 'a) \<times> 's" where
  "throw e s = (Inl e, s)"

definition setState :: "('h \<Rightarrow> 'h) \<Rightarrow> 'h \<times> 'w \<Rightarrow> (thrown + unit) \<times> 'h \<times> 'w" where
  "setState f s = (Inr (), f (fst s), snd s)"

definition call_api :: "('w \<Rightarrow> (thrown + 'a) \<times> 'w) \<Rightarrow> 'h \<times> 'w \<Rightarrow> (thrown + 'a) \<times> 'h \<times> 'w" where
  "call_api f s = (case f (snd s) of (r, w') \<Rightarrow> (r, fst s, w'))"

definition notify :: "('a \<Rightarrow> thrown option) option \<Rightarrow> 'a \<Rightarrow> 's \<Rightarrow> (thrown + unit) \<times> 's" where
  "notify onProgress stage s =
     (case onProgress of
        None \<Rightarrow> (Inr (), s)
      | Some f \<Rightarrow> (case f stage of None \<Rightarrow> (Inr (), s) | Some e \<Rightarrow> (Inl e, s)))"

definition message_or :: "thrown \<Rightarrow> string \<Rightarrow> string" where
  "message_or e fallback = (case e of JsError n m \<Rightarrow> m | NonError \<Rightarrow> fallback)"

text \<open>
  The check every hook makes on an envelope: the payload when \<open>response.success &&
  response.data\<close>, and \<open>throw new Error(response.error || fallback)\<close> otherwise.
\<close>

definition data_or_throw :: "string \<Rightarrow> 'p ApiResponse \<Rightarrow> 's \<Rightarrow> (thrown + 'p) \<times> 's" where
  "data_or_throw fallback response s =
     (case data response of
        Some d \<Rightarrow> if success response then (Inr d, s)
                  else (Inl (Error (js_or (error response) fallback)), s)
      | None \<Rightarrow> (Inl (Error (js_or (error response) fallback)), s))"

subsection \<open>useFrextApi (lines 55 to 104)\<close>

record 'p ApiState =
  api_data :: "'p option"
  api_loading :: bool
  api_error :: "string option"


definition api_reset :: "'p ApiState" where
  "api_reset = \<lparr>api_data = None, api_loading = False, api_error = None\<rparr>"

subsection \<open>useOCRProcess (lines 109 to 185) and useGPTProcess (lines 190 to 260)\<close>

datatype progress = Idle | Uploading | Processing | Analyzing | OcrStage | GptStage | Complete





subsection \<open>useCompleteProcess (lines 265 to 371)\<close>

record 'p CompleteState =
  c_loading :: bool
  c_error :: "string option"
  c_progress :: progress
  c_ocrResult :: "'p option"
  c_gptResult :: "'p option"

text \<open>
  The body of the \<open>try\<close> of \<open>processCompleteImage\<close> (lines 298 to 341), started in the
  state the \<open>setState\<close> of line 289 leaves. The GPT request carries no \<open>customPrompt\<close>.
\<close>

definition processCompleteImage_try ::
  "'p net \<Rightarrow> File \<Rightarrow> int option \<Rightarrow> OCROptions option \<Rightarrow> (string \<times> nat \<Rightarrow> thrown option) option
     \<Rightarrow> 'p CompleteState \<times> 'p browser \<Rightarrow> (thrown + 'p \<times> 'p) \<times> 'p CompleteState \<times> 'p browser" where
  "processCompleteImage_try fetch file templateId options onProgress s0 =
     await (notify onProgress (STAGE_UPLOADING, 10) s0)
     (\<lambda>u s1. await (setState (\<lambda>prev. prev\<lparr>c_progress := OcrStage\<rparr>) s1)
     (\<lambda>u s2. await (notify onProgress (STAGE_OCR, 30) s2)
     (\<lambda>u s3. await (call_api (processOCR fetch
                \<lparr>ocr_image = file, ocr_templateId = templateId, ocr_options = options\<rparr>) s3)
     (\<lambda>ocrResponse s4. await (data_or_throw OCR_FAILED ocrResponse s4)
     (\<lambda>ocrData s5. await (setState (\<lambda>prev. prev\<lparr>c_ocrResult := Some ocrData,
                                                c_progress := GptStage\<rparr>) s5)
     (\<lambda>u s6. await (notify onProgress (STAGE_GPT, 70) s6)
     (\<lambda>u s7. await (call_api (processGPT fetch
                \<lparr>gpt_ocrResult = ocrData, gpt_templateId = templateId, gpt_customPrompt = None\<rparr>) s7)
     (\<lambda>gptResponse s8. await (data_or_throw GPT_FAILED gptResponse s8)
     (\<lambda>gptData s9. await (setState (\<lambda>prev. \<lparr>c_loading = False, c_error = None,
                               c_progress = Complete, c_ocrResult = Some ocrData,
                               c_gptResult = Some gptData\<rparr>) s9)
     (\<lambda>u s10. await (notify onProgress (STAGE_DONE, 100) s10)
     (\<lambda>u s11. return (ocrData, gptData) s11)))))))))))"

definition processCompleteImage ::
  "'p net \<Rightarrow> File \<Rightarrow> int option \<Rightarrow> OCROptions option \<Rightarrow> (string \<times> nat \<Rightarrow> thrown option) option
     \<Rightarrow> 'p CompleteState \<Rightarrow> 'p browser \<Rightarrow> (thrown + 'p \<times> 'p) \<times> 'p CompleteState \<times> 'p browser" where
  "processCompleteImage fetch file templateId options onProgress st w =
     (case processCompleteImage_try fetch file templateId options onProgress
             (\<lparr>c_loading = True, c_error = None, c_progress = Uploading, c_ocrResult = None,
               c_gptResult = None\<rparr>, w) of
        (Inr v, s) \<Rightarrow> (Inr v, s)
      | (Inl e, s) \<Rightarrow>
          (Inl e,
           \<lparr>c_loading = False, c_error = Some (message_or e PROCESS_FAILED), c_progress = Idle,
            c_ocrResult = None, c_gptResult = None\<rparr>,
           snd s))"

definition complete_reset :: "'p CompleteState" where
  "complete_reset =
     \<lparr>c_loading = False, c_error = None, c_progress = Idle, c_ocrResult = None, c_gptResult = None\<rparr>"

subsection \<open>useTemplates (lines 376 to 412) and useUserProfile (lines 417 to 448)\<close>





section \<open>Utility hooks (useApi.ts)\<close>

subsection \<open>useLocalStorage (lines 506 to 545)\<close>

text \<open>
  \<open>JSON.parse\<close> and \<open>JSON.stringify\<close> are parameters: \<open>parse s\<close> is the parsed value or
  the \<open>SyntaxError\<close> thrown; \<open>stringify v\<close> is the text, \<open>None\<close> when the result is
  \<open>undefined\<close> (which \<open>setItem\<close> stores as the text \<open>undefined\<close>), or the error thrown.
  \<open>useLocalStorage_initial\<close> is the lazy initialiser of line 507, run at every mount.
  Each of the three operations has its storage call inside a \<open>try\<close> whose \<open>catch\<close> block
  logs the error and goes on; where the storage is blocked and \<open>JSON.stringify\<close> throws
  as well, the block gets one of the two errors and does the same with either.
\<close>

definition useLocalStorage_initial ::
  "(string \<Rightarrow> thrown + 'a) \<Rightarrow> string \<Rightarrow> 'a \<Rightarrow> 'd world \<Rightarrow> thrown + 'a" where
  "useLocalStorage_initial parse key initialValue w =
     (case (if window w then
              (case fst (localStorage_getItem (''frext_'' @ key) w) of
                 Inl e \<Rightarrow> Inl e
               | Inr None \<Rightarrow> Inr initialValue
               | Inr (Some item) \<Rightarrow> if item = [] then Inr initialValue else parse item)
            else Inr initialValue) of
        Inr v \<Rightarrow> Inr v
      | Inl e \<Rightarrow> Inr initialValue)"

datatype 'a SetStateAction = Value 'a | Updater "'a \<Rightarrow> 'a"

text \<open>\<open>value instanceof Function ? value(storedValue) : value\<close> (line 522).\<close>

definition resolve_action :: "'a SetStateAction \<Rightarrow> 'a \<Rightarrow> 'a" where
  "resolve_action action prev = (case action of Updater f \<Rightarrow> f prev | Value v \<Rightarrow> v)"

definition setValue ::
  "('a \<Rightarrow> thrown + string option) \<Rightarrow> string \<Rightarrow> 'a SetStateAction \<Rightarrow> 'a \<Rightarrow> 'd world
     \<Rightarrow> (thrown + unit) \<times> 'a \<times> 'd world" where
  "setValue stringify key action storedValue w =
     (case (let valueToStore = resolve_action action storedValue
            in await (setState (\<lambda>prev. valueToStore) (storedValue, w))
               (\<lambda>u s1. if window (snd s1) then
                          (case stringify valueToStore of
                             Inl e \<Rightarrow> throw e s1
                           | Inr jtext \<Rightarrow>
                               call_api
                                 (localStorage_setItem (''frext_'' @ key)
                                    (case jtext of None \<Rightarrow> ''undefined'' | Some t \<Rightarrow> t))
                                 s1)
                        else return () s1)) of
        (Inr v, s) \<Rightarrow> (Inr v, s)
      | (Inl e, s) \<Rightarrow> (Inr (), s))"

definition removeValue :: "string \<Rightarrow> 'a \<Rightarrow> 'a \<Rightarrow> 'd world \<Rightarrow> (thrown + unit) \<times> 'a \<times> 'd world" where
  "removeValue key initialValue storedValue w =
     (case await (setState (\<lambda>prev. initialValue) (storedValue, w))
             (\<lambda>u s1. if window (snd s1)
                      then call_api (localStorage_removeItem (''frext_'' @ key)) s1
                      else return () s1) of
        (Inr v, s) \<Rightarrow> (Inr v, s)
      | (Inl e, s) \<Rightarrow> (Inr (), s))"

subsection \<open>useDebounce (lines 550 to 564)\<close>

text \<open>
  Time is counted in milliseconds. The hook's state is the \<open>debouncedValue\<close>, the
  dependencies \<open>[value, delay]\<close> of the last run of the effect, and the pending timeout
  \<open>handler\<close>: the time it is due and the \<open>value\<close> its callback holds. \<open>propagated\<close> lists
  the argument of every call of \<open>setDebouncedValue\<close>, oldest first.

  \<open>mount\<close> is the first render: the state starts as \<open>value\<close> and the effect sets the
  timeout. \<open>elapse t\<close> lets the time reach \<open>t\<close>: a timeout due by then runs its
  callback. \<open>render t value delay\<close> is a render at time \<open>t\<close>: when a dependency has
  changed, the cleanup clears the pending timeout and the effect sets a new one.

  \<open>setTimeout\<close> takes its delay as a signed 32-bit number: \<open>setTimeout_delay\<close> is the
  time it really waits, the delay modulo \<open>2^32\<close>, and nothing when that is \<open>2^31\<close> or more
  (a negative number, which counts as zero).
\<close>

definition setTimeout_delay :: "nat \<Rightarrow> nat" where
  "setTimeout_delay delay = (if delay mod 2 ^ 32 < 2 ^ 31 then delay mod 2 ^ 32 else 0)"

record 'a DebounceState =
  debouncedValue :: 'a
  deps :: "'a \<times> nat"
  handler :: "(nat \<times> 'a) option"
  propagated :: "'a list"

definition mount :: "nat \<Rightarrow> 'a \<Rightarrow> nat \<Rightarrow> 'a DebounceState" where
  "mount t v delay =
     \<lparr>debouncedValue = v, deps = (v, delay), handler = Some (t + setTimeout_delay delay, v),
      propagated = []\<rparr>"

definition elapse :: "nat \<Rightarrow> 'a DebounceState \<Rightarrow> 'a DebounceState" where
  "elapse t st =
     (case handler st of
        None \<Rightarrow> st
      | Some (due, v) \<Rightarrow>
          if due \<le> t then st\<lparr>debouncedValue := v, handler := None, propagated := propagated st @ [v]\<rparr>
          else st)"

definition render :: "nat \<Rightarrow> 'a \<Rightarrow> nat \<Rightarrow> 'a DebounceState \<Rightarrow> 'a DebounceState" where
  "render t v delay st =
     (let st1 = elapse t st
      in if deps st1 = (v, delay) then st1
         else st1\<lparr>deps := (v, delay), handler := Some (t + setTimeout_delay delay, v)\<rparr>)"

text \<open>\<open>useDebounce\<close> over a component's life: the mount, then one render per entry.\<close>

fun renders :: "nat \<Rightarrow> (nat \<times> 'a) list \<Rightarrow> 'a DebounceState \<Rightarrow> 'a DebounceState" where
  "renders delay [] st = st"
| "renders delay ((t, v) # cs) st = renders delay cs (render t v delay st)"

definition useDebounce :: "nat \<Rightarrow> nat \<Rightarrow> 'a \<Rightarrow> (nat \<times> 'a) list \<Rightarrow> 'a DebounceState" where
  "useDebounce delay t0 v0 cs = renders delay cs (mount t0 v0 delay)"

text \<open>
  A rapid sequence: every entry is a change of the value, and comes less than \<open>delay\<close>
  after the entry before it.
\<close>

fun rapid :: "nat \<Rightarrow> nat \<Rightarrow> 'a \<Rightarrow> (nat \<times> 'a) list \<Rightarrow> bool" where
  "rapid delay t v [] = True"
| "rapid delay t v ((t', v') # cs) = (t \<le> t' \<and> t' < t + delay \<and> v' \<noteq> v \<and> rapid delay t' v' cs)"

subsection \<open>useApiConnection (lines 569 to 616)\<close>



section \<open>Networks, inputs and the notions the statements use\<close>

text \<open>A server that answers every call with the same response, and a network on which every call fails.\<close>

definition answering :: "'p Response \<Rightarrow> ('d, 'p) fetch" where
  "answering response url config = Resolves response"

definition rejecting :: "thrown \<Rightarrow> ('d, 'p) fetch" where
  "rejecting e url config = Rejects e"

text \<open>
  The platform's side of the timeout. The signal of line 127 is made by
  \<open>AbortSignal.timeout\<close>: when the time is over it aborts with a \<open>DOMException\<close> whose
  name is \<open>TimeoutError\<close> as its reason, and \<open>fetch\<close> rejects with the reason of its
  signal (DOM Standard, section on \<open>AbortSignal\<close>; Fetch Standard). The message text is
  the engine's own. \<open>AbortError\<close> is the reason of an \<open>AbortController.abort()\<close> without
  argument, which this repository never calls.
\<close>

definition timeout_reason :: "string \<Rightarrow> thrown" where
  "timeout_reason engine_text = JsError ''TimeoutError'' engine_text"

definition unresponsive :: "('d, 'p) fetch" where
  "unresponsive = rejecting (timeout_reason ''signal timed out'')"


text \<open>A call propagates when its promise rejects, that is, when the caller's \<open>await\<close> throws.\<close>

definition propagates :: "(thrown + 'a) \<times> 's \<Rightarrow> bool" where
  "propagates run = isl (fst run)"


text \<open>Error responses: their bodies in both readings.\<close>

definition error_response :: "nat \<Rightarrow> string \<Rightarrow> string \<Rightarrow> string Response" where
  "error_response code reason msg =
     \<lparr>status = code, statusText = reason,
      json = Resolves \<lparr>success = False, data = None, error = None, message = Some msg\<rparr>,
      json_untyped = Resolves (JObject [(''success'', JBool False), (''message'', JString msg)])\<rparr>"



definition bad_gateway :: "string Response" where
  "bad_gateway = error_response 502 ''Bad Gateway'' ''Failed to fetch upstream''"

definition unauthorized :: "string Response" where
  "unauthorized = error_response 401 ''Unauthorized'' ''invalid token''"

definition null_body :: "string Response" where
  "null_body =
     \<lparr>status = 500, statusText = ''Internal Server Error'',
      json = Rejects (TypeError NULL_PROPERTY_TEXT), json_untyped = Resolves JNull\<rparr>"

text \<open>Browsers: a storage area of five million units, empty or with an entry; one with room for ten; a blocked one.\<close>

definition returning_visitor :: "string browser" where
  "returning_visitor =
     module_loaded (Area [''frext_auth_token'' \<mapsto> ''stale-token''] 4999973) None"

definition first_visit :: "string browser" where
  "first_visit = module_loaded (Area Map.empty 5000000) None"

definition corrupt_storage :: "string browser" where
  "corrupt_storage = module_loaded (Area [''frext_darkMode'' \<mapsto> ''{tru''] 4999982) None"

definition full_storage :: "string browser" where
  "full_storage = module_loaded (Area Map.empty 10) None"

definition blocked_storage :: "string browser" where
  "blocked_storage = module_loaded Blocked None"

definition receipt :: File where
  "receipt = File ''receipt.png'' 2048"

text \<open>
  A network on which the OCR endpoint answers with a result and every other endpoint
  with a 500.
\<close>

definition ocr_only :: "string net" where
  "ocr_only url config =
     (if url = ''http://localhost:3001/api/v1/ocr/process''
      then Resolves \<lparr>status = 200, statusText = ''OK'',
             json = Resolves \<lparr>success = True, data = Some ''TOTAL 1200'', error = None,
                              message = None\<rparr>,
             json_untyped = Resolves (JObject [(''success'', JBool True),
                                               (''data'', JString ''TOTAL 1200'')])\<rparr>
      else Resolves (error_response 500 ''Internal Server Error'' ''model overloaded''))"



text \<open>
  A value is JSON-serializable when \<open>JSON.stringify\<close> gives a text for it that
  \<open>JSON.parse\<close> reads back as the same value; a JSON text is never empty.
\<close>

definition json_serializable ::
  "(string \<Rightarrow> thrown + 'a) \<Rightarrow> ('a \<Rightarrow> thrown + string option) \<Rightarrow> 'a \<Rightarrow> bool" where
  "json_serializable parse stringify v =
     (case stringify v of
        Inl e \<Rightarrow> False
      | Inr None \<Rightarrow> False
      | Inr (Some text) \<Rightarrow> text \<noteq> [] \<and> parse text = Inr v)"

text \<open>
  The write of line 526 succeeds: there is a window, \<open>JSON.stringify\<close> returns, and
  \<open>localStorage.setItem\<close> takes the text.
\<close>

definition write_succeeds ::
  "('a \<Rightarrow> thrown + string option) \<Rightarrow> string \<Rightarrow> 'a \<Rightarrow> 'd world \<Rightarrow> bool" where
  "write_succeeds stringify key v w =
     (window w \<and>
      (case stringify v of
         Inl e \<Rightarrow> False
       | Inr jtext \<Rightarrow>
           \<not> isl (fst (localStorage_setItem (''frext_'' @ key)
                         (case jtext of None \<Rightarrow> ''undefined'' | Some t \<Rightarrow> t) w))))"

text \<open>\<open>JSON.parse\<close> and \<open>JSON.stringify\<close> on the booleans.\<close>

definition parse_bool :: "string \<Rightarrow> thrown + bool" where
  "parse_bool s =
     (if s = ''true'' then Inr True
      else if s = ''false'' then Inr False
      else Inl (JsError ''SyntaxError'' ''Unexpected token''))"

definition stringify_bool :: "bool \<Rightarrow> thrown + string option" where
  "stringify_bool b = Inr (Some (if b then ''true'' else ''false''))"

section \<open>Basic facts about the client\<close>

lemma await_Inr [simp]: "await (Inr v, s) f = f v s"
  by (simp add: await_def)

lemma await_Inl [simp]: "await (Inl e, s) f = (Inl e, s)"
  by (simp add: await_def)

lemma request_catch_returns: "\<exists>m. request_catch e = Inr (failure m)"
  by (cases e) (auto simp: request_catch_def)

lemma request_returns: "\<exists>r. fst (request fetch c endpoint options w) = Inr r"
proof (cases "request_try (fetch (baseUrl c @ endpoint) (request_config c options w))")
  case (Inl e)
  with request_catch_returns [of e] show ?thesis
    by (auto simp: request_def Let_def)
next
  case (Inr d)
  then show ?thesis
    by (simp add: request_def Let_def)
qed

lemma snd_request:
  "snd (request fetch c endpoint options w) =
     w\<lparr>issued := issued w @ [(baseUrl c @ endpoint, request_config c options w)]\<rparr>"
  by (simp add: request_def Let_def)

subsection \<open>The shared header object\<close>

text \<open>
  Claim C10. Every client holds the address of the one \<open>API_CONFIG.headers\<close> object.
  So \<open>setAuthToken\<close> on a client made from any base URL writes the \<open>Authorization\<close>
  header into that shared object: a client made from any other base URL (before or after
  the call, the constructor reads no state) finds it among its default headers and
  sends it, and \<open>clearAuthToken\<close> on one client removes it for all of them alike.
\<close>

theorem shared_default_headers:
  "heap (setAuthToken (new_FrextApiClient url1) token w)
        (defaultHeaders (new_FrextApiClient url2)) ''Authorization'' = Some (''Bearer '' @ token)
   \<and> heap (setAuthToken (new_FrextApiClient url1) token w) API_CONFIG_headers ''Authorization''
        = Some (''Bearer '' @ token)
   \<and> headers (request_config (new_FrextApiClient url2) no_options
        (setAuthToken (new_FrextApiClient url1) token w))
        = Some ((heap w API_CONFIG_headers)(''Authorization'' \<mapsto> ''Bearer '' @ token))
   \<and> heap (clearAuthToken (new_FrextApiClient url1) w)
        (defaultHeaders (new_FrextApiClient url2)) ''Authorization'' = None
   \<and> heap (clearAuthToken (new_FrextApiClient url1) w) API_CONFIG_headers ''Authorization'' = None
   \<and> headers (request_config (new_FrextApiClient url2) no_options
        (clearAuthToken (new_FrextApiClient url1) w))
        = Some ((heap w API_CONFIG_headers)(''Authorization'' := None))"
  by (simp add: setAuthToken_def clearAuthToken_def new_FrextApiClient_def request_config_def
      no_options_def)

subsection \<open>Multipart uploads\<close>

lemma map_add_restrict_self: "m ++ m(k := None) = m"
  by (rule ext) (simp add: map_add_def split: option.splits)

text \<open>
  The headers \<open>postFormData\<close> issues are the default headers, unchanged: the deletion of
  line 193 has no effect on the request.
\<close>

theorem postFormData_issues_default_headers:
  "issued (snd (postFormData fetch c endpoint formData w)) =
     issued w @ [(baseUrl c @ endpoint,
       \<lparr>method = Some ''POST'', headers = Some (heap w (defaultHeaders c)),
        body = Some (Multipart formData), signal = Some API_CONFIG_timeout\<rparr>)]"
  by (simp add: postFormData_def snd_request request_config_def no_options_def Let_def map_add_restrict_self)

text \<open>
  Claim C1 says that the request issued for \<open>postFormData\<close> carries no \<open>Content-Type\<close>
  header. The code does not achieve this: the copy without \<open>Content-Type\<close> goes to
  \<open>request\<close> as \<open>options.headers\<close>, and \<open>request\<close> spreads \<open>this.defaultHeaders\<close>, which
  still has the entry, underneath it. On a freshly loaded module, whatever the network
  does, the upload of \<open>processOCR\<close> is issued with \<open>Content-Type: application/json\<close>.
\<close>

theorem processOCR_sends_json_content_type:
  "map (\<lambda>(url, config). (url, map_option (\<lambda>h. h ''Content-Type'') (headers config)))
     (issued (snd (processOCR fetch \<lparr>ocr_image = receipt, ocr_templateId = None, ocr_options = None\<rparr> first_visit)))
   = [(''http://localhost:3001/api/v1/ocr/process'', Some (Some ''application/json''))]"
  by (simp add: processOCR_def postFormData_issues_default_headers first_visit_def module_loaded_def
     frextApiClient_def new_FrextApiClient_def API_CONFIG_baseUrl_def js_or_def API_CONFIG_apiPrefix_def API_CONFIG_headers_def)

subsection \<open>Timeouts\<close>

lemma request_catch_AbortError: "request_catch (JsError ''AbortError'' m) = Inr (failure TIMEOUT_MESSAGE)"
  by (simp add: request_catch_def)

lemma fst_request_rejecting: "fst (request (rejecting e) c endpoint options w) = request_catch e"
  by (simp add: request_def rejecting_def request_try_def Let_def)

lemma failure_eq_iff: "(failure m = (failure m' :: 'p ApiResponse)) = (m = m')"
  by (simp add: failure_def)

text \<open>The fixed timeout message is returned for the name \<open>AbortError\<close>, and for no other error
  unless it carries that very text as its message.\<close>

lemma request_catch_timeout_message_iff:
  "(request_catch e = Inr (failure TIMEOUT_MESSAGE :: 'p ApiResponse)) =
     (case e of JsError n m \<Rightarrow> n = ''AbortError'' \<or> m = TIMEOUT_MESSAGE | NonError \<Rightarrow> False)"
proof (cases e)
  case (JsError n m)
  have "\<not> str_includes TIMEOUT_MESSAGE ''NetworkError''"
    and "\<not> str_includes TIMEOUT_MESSAGE ''Failed to fetch''"
    and "NETWORK_MESSAGE \<noteq> TIMEOUT_MESSAGE"
    by (simp_all add: TIMEOUT_MESSAGE_def NETWORK_MESSAGE_def)
  with JsError show ?thesis
    by (auto simp: request_catch_def failure_eq_iff)
next
  case NonError
  then show ?thesis
    by (simp add: request_catch_def failure_eq_iff TIMEOUT_MESSAGE_def)
qed

text \<open>
  Claim C2 says that a request running into the 30 second timeout is answered with the
  fixed localized timeout message. The \<open>catch\<close> block tests for the name \<open>AbortError\<close>,
  but the signal of \<open>AbortSignal.timeout\<close> aborts with a \<open>TimeoutError\<close>. On a server that
  never answers, \<open>request\<close> returns the engine's own message text in the envelope, and
  that is not the fixed message.
\<close>

theorem request_timeout_reports_engine_text:
  "fst (request unresponsive c endpoint options w) = Inr (failure ''signal timed out'')
   \<and> (failure ''signal timed out'' :: 'p ApiResponse) \<noteq> failure TIMEOUT_MESSAGE"
  by (simp add: unresponsive_def fst_request_rejecting request_catch_def timeout_reason_def
      failure_eq_iff TIMEOUT_MESSAGE_def)

subsection \<open>HTTP error statuses\<close>

lemma request_try_not_ok:
  "\<not> ok response \<Longrightarrow>
   request_try (Resolves response) =
     (case errorData_message (errorData response) of
        Inl t \<Rightarrow> Inl t
      | Inr m \<Rightarrow> Inl (new_Error (error_argument m response)))"
  by (simp add: request_try_def)

lemma request_catch_Error:
  "request_catch (Error m) =
     Inr (failure (if str_includes m ''NetworkError'' \<or> str_includes m ''Failed to fetch''
                   then NETWORK_MESSAGE else m))"
  by (simp add: request_catch_def Error_def)

lemma http_status_message_404:
  "http_status_message \<lparr>status = 404, statusText = ''Not Found'',
      json = Rejects (JsError ''SyntaxError'' ''Unexpected token''),
      json_untyped = Rejects (JsError ''SyntaxError'' ''Unexpected token'')\<rparr>
   = ''HTTP 404: Not Found''"
  by (simp add: http_status_message_def string_of_nat.simps)

text \<open>
  What \<open>request\<close> returns for a response that is not ok, in full: the \<open>catch\<close> block's
  answer to the \<open>TypeError\<close> of reading \<open>message\<close> on \<open>null\<close>, or to the error line 137
  makes.
\<close>

lemma request_not_ok:
  assumes "fetch (baseUrl c @ endpoint) (request_config c options w) = Resolves response"
    and "\<not> ok response"
  shows "fst (request fetch c endpoint options w) =
     request_catch (case errorData_message (errorData response) of
        Inl t \<Rightarrow> t
      | Inr m \<Rightarrow> new_Error (error_argument m response))"
  using assms
  by (simp add: request_def Let_def request_try_not_ok split: sum.splits)


lemma error_response_not_ok: "300 \<le> code \<Longrightarrow> \<not> ok (error_response code reason msg)"
  by (simp add: ok_def error_response_def)

lemma errorData_message_error_response:
  "errorData_message (errorData (error_response code reason msg)) = Inr (Some (JString msg))"
  by (simp add: errorData_message_def errorData_def error_response_def)



text \<open>
  The two cases the amended claim leaves out. A body of \<open>null\<close>: the read of \<open>message\<close>
  throws inside the \<open>try\<close> and the envelope carries the engine's text of that
  \<open>TypeError\<close>. A message that holds one of the patterns of line 156: the envelope
  carries the fixed network message.
\<close>

lemma request_null_body:
  "fst (request (answering null_body) c endpoint options w) = Inr (failure NULL_PROPERTY_TEXT)"
proof -
  have "\<not> ok null_body"
    by (simp add: ok_def null_body_def)
  then show ?thesis
    by (simp add: request_not_ok [where response = null_body] answering_def)
      (simp add: null_body_def errorData_def errorData_message_def TypeError_def request_catch_def
        NULL_PROPERTY_TEXT_def)
qed

lemma request_bad_gateway:
  "fst (request (answering bad_gateway) c endpoint options w) = Inr (failure NETWORK_MESSAGE)"
proof -
  have "\<not> ok bad_gateway"
    by (simp add: bad_gateway_def error_response_not_ok)
  then show ?thesis
    by (simp add: request_not_ok [where response = bad_gateway] answering_def)
      (simp add: bad_gateway_def errorData_message_error_response error_argument_def truthy_def
        new_Error_def request_catch_Error)
qed

text \<open>A message that is no string is reported as \<open>String\<close> prints it.\<close>

lemma request_array_message:
  "fst (request
     (answering \<lparr>status = 422, statusText = ''Unprocessable Entity'',
         json = Rejects NonError,
         json_untyped = Resolves (JObject [(''message'',
            JArray [JString ''email is invalid'', JNull, JNumber ''42''])])\<rparr>)
     c endpoint options w)
   = Inr (failure ''email is invalid,,42'' :: 'p ApiResponse)"
  by (subst request_not_ok [where response = "\<lparr>status = 422, statusText = ''Unprocessable Entity'',
         json = Rejects NonError,
         json_untyped = Resolves (JObject [(''message'',
            JArray [JString ''email is invalid'', JNull, JNumber ''42''])])\<rparr>"])
    (simp_all add: answering_def ok_def errorData_def errorData_message_def error_argument_def
      truthy_def new_Error_def request_catch_Error)

subsection \<open>The auth sub-client\<close>

lemma getItem_setAuthToken [simp]: "getItem k (setAuthToken c t w) = getItem k w"
  by (simp add: getItem_def setAuthToken_def)

lemma getItem_clearAuthToken [simp]: "getItem k (clearAuthToken c w) = getItem k w"
  by (simp add: getItem_def clearAuthToken_def)

lemma getItem_snd_request [simp]: "getItem k (snd (request fetch c endpoint options w)) = getItem k w"
  by (simp add: snd_request getItem_def)

lemma heap_snd_request [simp]: "heap (snd (request fetch c endpoint options w)) = heap w"
  by (simp add: snd_request)

lemma request_obtains:
  obtains r where "request fetch c endpoint options w =
    (Inr r, w\<lparr>issued := issued w @ [(baseUrl c @ endpoint, request_config c options w)]\<rparr>)"
  using request_returns [of fetch c endpoint options w] snd_request [of fetch c endpoint options w]
  by (metis prod.collapse)

lemma get_obtains:
  obtains r w' where "get fetch c endpoint w = (Inr r, w')"
    and "heap w' = heap w" and "localStorage w' = localStorage w"
proof -
  obtain r where "get fetch c endpoint w =
    (Inr r, w\<lparr>issued := issued w @ [(baseUrl c @ endpoint,
       request_config c (no_options\<lparr>method := Some ''GET''\<rparr>) w)]\<rparr>)"
    unfolding get_def by (rule request_obtains)
  then show ?thesis
    by (rule that) simp_all
qed

lemma post_obtains:
  obtains r w' where "post fetch c endpoint d w = (Inr r, w')"
    and "heap w' = heap w" and "localStorage w' = localStorage w"
proof -
  obtain r where "post fetch c endpoint d w =
    (Inr r, w\<lparr>issued := issued w @ [(baseUrl c @ endpoint,
       request_config c (no_options\<lparr>method := Some ''POST'', body := map_option JsonText d\<rparr>) w)]\<rparr>)"
    unfolding post_def by (rule request_obtains)
  then show ?thesis
    by (rule that) simp_all
qed


lemma verifyToken_obtains:
  obtains r w' where "verifyToken fetch t w = (Inr r, w')"
    and "localStorage w' = localStorage w"
proof -
  obtain r w' where v: "verifyToken fetch t w = (Inr r, w')"
    and "localStorage w' = localStorage (setAuthToken (frextApiClient w) t w)"
    unfolding verifyToken_def by (rule get_obtains)
  then have "localStorage w' = localStorage w"
    by (simp add: setAuthToken_def)
  with v show ?thesis
    by (rule that)
qed

text \<open>No run of \<open>autoLogin\<close> changes the stored token.\<close>

lemma autoLogin_keeps_token:
  "getItem ''frext_auth_token'' (snd (autoLogin fetch w)) = getItem ''frext_auth_token'' w"
proof (cases "localStorage w")
  case NoWindow
  then show ?thesis
    by (simp add: autoLogin_def window_def)
next
  case Blocked
  then show ?thesis
    by (simp add: autoLogin_def window_def localStorage_getItem_def)
next
  case (Area entries room)
  show ?thesis
  proof (cases "entries ''frext_auth_token''")
    case None
    with Area show ?thesis
      by (simp add: autoLogin_def window_def localStorage_getItem_def)
  next
    case (Some t)
    obtain r w' where "verifyToken fetch t w = (Inr r, w')" and "localStorage w' = localStorage w"
      by (rule verifyToken_obtains)
    with Area Some show ?thesis
      by (simp add: autoLogin_def window_def localStorage_getItem_def getItem_def)
  qed
qed

text \<open>
  Claim C4 says that \<open>autoLogin\<close> removes the stored token whenever the verification
  does not succeed. The removal stands in the \<open>catch\<close> block, and \<open>verifyToken\<close> never
  throws, since \<open>request\<close> turns every failure into an envelope. With a stale token in
  the storage and a server answering 401, \<open>autoLogin\<close> returns \<open>false\<close> and the token
  is still stored.
\<close>

theorem autoLogin_keeps_rejected_token:
  "fst (autoLogin (answering unauthorized) returning_visitor) = Inr False
   \<and> getItem ''frext_auth_token'' (snd (autoLogin (answering unauthorized) returning_visitor))
       = Some ''stale-token''"
proof -
  have w: "window returning_visitor"
    and t: "getItem ''frext_auth_token'' returning_visitor = Some ''stale-token''"
    and g: "localStorage_getItem ''frext_auth_token'' returning_visitor
        = (Inr (Some ''stale-token''), returning_visitor)"
    by (simp_all add: window_def getItem_def localStorage_getItem_def returning_visitor_def
        module_loaded_def)
  have n: "\<not> ok unauthorized"
    by (simp add: unauthorized_def error_response_not_ok)
  have e: "errorData_message (errorData unauthorized) = Inr (Some (JString ''invalid token''))"
    by (simp add: unauthorized_def errorData_message_error_response)
  have a: "error_argument (Some (JString ''invalid token'')) unauthorized = JString ''invalid token''"
    by (simp add: error_argument_def truthy_def)
  have "fst (verifyToken (answering unauthorized) ''stale-token'' returning_visitor)
               = Inr (failure ''invalid token'')"
    by (simp add: verifyToken_def get_def request_not_ok [where response = unauthorized]
        answering_def n e a new_Error_def request_catch_Error)
  then obtain w' where "verifyToken (answering unauthorized) ''stale-token'' returning_visitor
      = (Inr (failure ''invalid token''), w')"
    by (metis prod.collapse)
  with w g have "fst (autoLogin (answering unauthorized) returning_visitor) = Inr False"
    by (simp add: autoLogin_def failure_def)
  with t show ?thesis
    by (simp add: autoLogin_keeps_token)
qed

text \<open>
  Claim C7. After every run of \<open>logout\<close>, whatever the network answers, the shared
  default headers of the client have no \<open>Authorization\<close> entry and the storage holds no
  \<open>frext_auth_token\<close>. The call itself throws in one case only: where the storage is
  blocked, so that the document has no storage area that could hold a token; it
  throws the \<open>SecurityError\<close> of line 389 after it has cleared the header.
\<close>

theorem logout_clears_token:
  "heap (snd (logout fetch w)) (defaultHeaders (frextApiClient (snd (logout fetch w))))
     ''Authorization'' = None
   \<and> getItem ''frext_auth_token'' (snd (logout fetch w)) = None
   \<and> propagates (logout fetch w) = (localStorage w = Blocked)"
proof -
  obtain r w' where p: "post fetch (frextApiClient w) ''/auth/logout'' None w = (Inr r, w')"
    and "heap w' = heap w" and "localStorage w' = localStorage w"
    by (rule post_obtains)
  then show ?thesis
    unfolding logout_def p
    by (cases "localStorage w")
      (simp_all add: Let_def propagates_def clearAuthToken_def localStorage_removeItem_def
        window_def getItem_def frextApiClient_def new_FrextApiClient_def)
qed

section \<open>The request-state hooks\<close>



lemma data_or_throw_Some:
  "success response \<Longrightarrow> data response = Some d \<Longrightarrow> data_or_throw fallback response s = (Inr d, s)"
  by (simp add: data_or_throw_def)

lemma data_or_throw_fails:
  "\<not> (success response \<and> data response \<noteq> None) \<Longrightarrow>
   data_or_throw fallback response s = (Inl (Error (js_or (error response) fallback)), s)"
  by (auto simp: data_or_throw_def split: option.splits)

lemma notify_cases:
  obtains "notify onProgress stage s = (Inr (), s)"
  | e where "notify onProgress stage s = (Inl e, s)"
proof (cases onProgress)
  case None
  then show ?thesis
    by (simp add: notify_def that)
next
  case (Some f)
  then show ?thesis
    by (cases "f stage") (simp_all add: notify_def that)
qed

lemma notify_None [simp]: "notify None stage s = (Inr (), s)"
  by (simp add: notify_def)

text \<open>
  When the OCR call succeeds and the GPT call fails, the body of the \<open>try\<close> (run
  without \<open>onProgress\<close>) stops with the OCR result still in the state; the \<open>catch\<close>
  block is what resets it.
\<close>

lemma processCompleteImage_try_gpt_failure:
  assumes "processOCR fetch \<lparr>ocr_image = file, ocr_templateId = templateId, ocr_options = options\<rparr> w
             = (Inr ocrResponse, w1)"
    and "success ocrResponse" and "data ocrResponse = Some ocrData"
    and "processGPT fetch \<lparr>gpt_ocrResult = ocrData, gpt_templateId = templateId,
             gpt_customPrompt = None\<rparr> w1 = (Inr gptResponse, w2)"
    and "\<not> (success gptResponse \<and> data gptResponse \<noteq> None)"
  shows "processCompleteImage_try fetch file templateId options None (st0, w)
           = (Inl (Error (js_or (error gptResponse) GPT_FAILED)),
              st0\<lparr>c_progress := GptStage, c_ocrResult := Some ocrData\<rparr>, w2)"
  using assms
  by (simp add: processCompleteImage_try_def setState_def call_api_def data_or_throw_Some
      data_or_throw_fails)

lemma processCompleteImage_try_rejects:
  assumes "processOCR fetch \<lparr>ocr_image = file, ocr_templateId = templateId, ocr_options = options\<rparr> w
             = (Inr ocrResponse, w1)"
    and "success ocrResponse" and "data ocrResponse = Some ocrData"
    and "processGPT fetch \<lparr>gpt_ocrResult = ocrData, gpt_templateId = templateId,
             gpt_customPrompt = None\<rparr> w1 = (Inr gptResponse, w2)"
    and "\<not> (success gptResponse \<and> data gptResponse \<noteq> None)"
  shows "\<exists>e s. processCompleteImage_try fetch file templateId options onProgress (st0, w) = (Inl e, s)"
  using assms
  by (auto simp: processCompleteImage_try_def setState_def call_api_def data_or_throw_Some
      data_or_throw_fails notify_def split: option.splits)

text \<open>
  Claim C5. For every run of \<open>processCompleteImage\<close> in which the OCR call succeeds (its
  envelope has \<open>success\<close> and \<open>data\<close>) and the GPT call on that result fails (its envelope
  lacks \<open>success\<close> or \<open>data\<close>), the final state has an error message and both
  \<open>ocrResult\<close> and \<open>gptResult\<close> are \<open>null\<close>, whatever \<open>onProgress\<close> does. Without
  \<open>onProgress\<close> the message is the error of the GPT envelope, or the GPT fallback text.
\<close>

theorem processCompleteImage_discards_ocrResult:
  assumes "processOCR fetch \<lparr>ocr_image = file, ocr_templateId = templateId, ocr_options = options\<rparr> w
             = (Inr ocrResponse, w1)"
    and "success ocrResponse" and "data ocrResponse = Some ocrData"
    and "processGPT fetch \<lparr>gpt_ocrResult = ocrData, gpt_templateId = templateId,
             gpt_customPrompt = None\<rparr> w1 = (Inr gptResponse, w2)"
    and "\<not> (success gptResponse \<and> data gptResponse \<noteq> None)"
  shows "c_error (fst (snd (processCompleteImage fetch file templateId options onProgress st w))) \<noteq> None
    \<and> c_ocrResult (fst (snd (processCompleteImage fetch file templateId options onProgress st w))) = None
    \<and> c_gptResult (fst (snd (processCompleteImage fetch file templateId options onProgress st w))) = None
    \<and> processCompleteImage fetch file templateId options None st w =
        (Inl (Error (js_or (error gptResponse) GPT_FAILED)),
         \<lparr>c_loading = False, c_error = Some (js_or (error gptResponse) GPT_FAILED),
          c_progress = Idle, c_ocrResult = None, c_gptResult = None\<rparr>, w2)"
proof -
  obtain e s where "processCompleteImage_try fetch file templateId options onProgress
      (\<lparr>c_loading = True, c_error = None, c_progress = Uploading, c_ocrResult = None,
        c_gptResult = None\<rparr>, w) = (Inl e, s)"
    using processCompleteImage_try_rejects [OF assms] by blast
  then have "processCompleteImage fetch file templateId options onProgress st w =
      (Inl e, \<lparr>c_loading = False, c_error = Some (message_or e PROCESS_FAILED), c_progress = Idle,
         c_ocrResult = None, c_gptResult = None\<rparr>, snd s)"
    by (simp add: processCompleteImage_def)
  moreover have "processCompleteImage fetch file templateId options None st w =
        (Inl (Error (js_or (error gptResponse) GPT_FAILED)),
         \<lparr>c_loading = False, c_error = Some (js_or (error gptResponse) GPT_FAILED),
          c_progress = Idle, c_ocrResult = None, c_gptResult = None\<rparr>, w2)"
    by (simp add: processCompleteImage_def processCompleteImage_try_gpt_failure [OF assms]
        message_or_def Error_def)
  ultimately show ?thesis
    by simp
qed

text \<open>Claim C5 on a network whose OCR endpoint works and whose GPT endpoint answers 500.\<close>

theorem processCompleteImage_discards_ocrResult_witness:
  "processCompleteImage ocr_only receipt None None None complete_reset first_visit =
     (Inl (Error ''model overloaded''),
      \<lparr>c_loading = False, c_error = Some ''model overloaded'', c_progress = Idle,
       c_ocrResult = None, c_gptResult = None\<rparr>,
      snd (snd (processCompleteImage ocr_only receipt None None None complete_reset first_visit)))"
proof -
  let ?ocr = "\<lparr>success = True, data = Some ''TOTAL 1200'', error = None, message = None\<rparr>"
  have url: "baseUrl (frextApiClient first_visit) = ''http://localhost:3001/api/v1''"
    by (simp add: frextApiClient_def new_FrextApiClient_def API_CONFIG_baseUrl_def js_or_def
        API_CONFIG_apiPrefix_def first_visit_def module_loaded_def)
  have "fst (processOCR ocr_only \<lparr>ocr_image = receipt, ocr_templateId = None, ocr_options = None\<rparr>
          first_visit) = Inr ?ocr"
    by (simp add: processOCR_def postFormData_def Let_def request_def url ocr_only_def
        request_try_def ok_def)
  then obtain w1 where ocr: "processOCR ocr_only
      \<lparr>ocr_image = receipt, ocr_templateId = None, ocr_options = None\<rparr> first_visit = (Inr ?ocr, w1)"
    by (metis prod.collapse)
  have "baseUrl (frextApiClient w1) = ''http://localhost:3001/api/v1''"
    using ocr url
    by (auto simp: processOCR_def postFormData_def Let_def request_def frextApiClient_def
        API_CONFIG_baseUrl_def)
  then have f: "ocr_only (baseUrl (frextApiClient w1) @ ''/gpt/process'') config
      = Resolves (error_response 500 ''Internal Server Error'' ''model overloaded'')" for config
    by (simp add: ocr_only_def)
  have "fst (processGPT ocr_only \<lparr>gpt_ocrResult = ''TOTAL 1200'', gpt_templateId = None,
             gpt_customPrompt = None\<rparr> w1) = Inr (failure ''model overloaded'')"
    by (simp add: processGPT_def post_def f error_response_not_ok
        request_not_ok [where response = "error_response 500 ''Internal Server Error'' ''model overloaded''"]
        errorData_message_error_response error_argument_def truthy_def new_Error_def
        request_catch_Error)
  then obtain w2 where gpt: "processGPT ocr_only \<lparr>gpt_ocrResult = ''TOTAL 1200'',
      gpt_templateId = None, gpt_customPrompt = None\<rparr> w1 = (Inr (failure ''model overloaded''), w2)"
    by (metis prod.collapse)
  have "\<not> (success (failure ''model overloaded'' :: string ApiResponse)
           \<and> data (failure ''model overloaded'' :: string ApiResponse) \<noteq> None)"
    by (simp add: failure_def)
  from processCompleteImage_discards_ocrResult [OF ocr _ _ gpt this, of None complete_reset]
  show ?thesis
    by (simp add: failure_def js_or_def)
qed


section \<open>Which operations throw\<close>









text \<open>With a blocked storage, \<open>logout\<close> and \<open>autoLogin\<close> do throw; with a full one, \<open>login\<close> can.\<close>

lemma autoLogin_blocked: "fst (autoLogin fetch blocked_storage) = Inl SecurityError"
  by (simp add: autoLogin_def window_def blocked_storage_def module_loaded_def
      localStorage_getItem_def)














section \<open>The utility hooks\<close>

subsection \<open>useLocalStorage\<close>

lemma useLocalStorage_initial_Area:
  assumes "localStorage w = Area entries room"
  shows "useLocalStorage_initial parse key initialValue w =
     (case entries (''frext_'' @ key) of
        None \<Rightarrow> Inr initialValue
      | Some item \<Rightarrow>
          if item = [] then Inr initialValue
          else (case parse item of Inl e \<Rightarrow> Inr initialValue | Inr v \<Rightarrow> Inr v))"
  using assms
  by (simp add: useLocalStorage_initial_def window_def localStorage_getItem_def
      split: option.splits sum.splits)

lemma setValue_written:
  assumes "write_succeeds stringify key (resolve_action action storedValue) w"
    and "stringify (resolve_action action storedValue) = Inr jtext"
  shows "\<exists>entries room.
     setValue stringify key action storedValue w =
       (Inr (), resolve_action action storedValue,
        w\<lparr>localStorage := Area (entries(''frext_'' @ key \<mapsto>
             (case jtext of None \<Rightarrow> ''undefined'' | Some t \<Rightarrow> t))) room\<rparr>)"
proof (cases "localStorage w")
  case NoWindow
  with assms show ?thesis
    by (simp add: write_succeeds_def window_def)
next
  case Blocked
  with assms show ?thesis
    by (simp add: write_succeeds_def localStorage_setItem_def)
next
  case (Area entries room)
  with assms show ?thesis
    by (auto simp: write_succeeds_def setValue_def Let_def setState_def call_api_def window_def
        localStorage_setItem_def split: if_splits)
qed

lemma setValue_not_written:
  assumes "\<not> write_succeeds stringify key (resolve_action action storedValue) w"
  shows "setValue stringify key action storedValue w =
           (Inr (), resolve_action action storedValue, w)"
proof (cases "stringify (resolve_action action storedValue)")
  case (Inl e)
  then show ?thesis
    by (simp add: setValue_def Let_def setState_def throw_def return_def)
next
  case (Inr jtext)
  with assms show ?thesis
    by (cases "localStorage w")
      (auto simp: write_succeeds_def setValue_def Let_def setState_def call_api_def window_def
        return_def localStorage_setItem_def split: if_splits)
qed

text \<open>
  Claim C9, as amended. For every key and every JSON-serializable value: when the write
  of \<open>setValue\<close> succeeds (there is a window, the storage can be accessed and has room
  for the text), a new mount of the hook, that is the lazy initial read on the storage
  \<open>setValue\<close> left, gives the value back. When the write does not succeed, \<open>setValue\<close>
  still returns without throwing and with the value as the hook's state, and leaves
  the world as it was, so that a new mount reads what was stored before. When the
  stored text is one \<open>JSON.parse\<close> throws on, the initial read gives the default value;
  it never throws, whatever the storage.
\<close>

theorem useLocalStorage_round_trip:
  "(json_serializable parse stringify (resolve_action action storedValue)
      \<and> write_succeeds stringify key (resolve_action action storedValue) w \<longrightarrow>
      useLocalStorage_initial parse key initialValue
          (snd (snd (setValue stringify key action storedValue w)))
        = Inr (resolve_action action storedValue))
   \<and> (\<not> write_succeeds stringify key (resolve_action action storedValue) w \<longrightarrow>
        snd (snd (setValue stringify key action storedValue w)) = w)
   \<and> fst (setValue stringify key action storedValue w) = Inr ()
   \<and> fst (snd (setValue stringify key action storedValue w)) = resolve_action action storedValue
   \<and> (getItem (''frext_'' @ key) w' = Some item \<and> isl (parse item) \<longrightarrow>
        useLocalStorage_initial parse key initialValue w' = Inr initialValue)
   \<and> \<not> isl (useLocalStorage_initial parse key initialValue w')"
proof (intro conjI impI)
  assume a: "json_serializable parse stringify (resolve_action action storedValue)
      \<and> write_succeeds stringify key (resolve_action action storedValue) w"
  then obtain jt where t: "stringify (resolve_action action storedValue) = Inr (Some jt)"
      "jt \<noteq> []" "parse jt = Inr (resolve_action action storedValue)"
    by (auto simp: json_serializable_def split: sum.splits option.splits)
  from a t(1) obtain entries room where "setValue stringify key action storedValue w =
       (Inr (), resolve_action action storedValue,
        w\<lparr>localStorage := Area (entries(''frext_'' @ key \<mapsto> jt)) room\<rparr>)"
    using setValue_written [of stringify key action storedValue w "Some jt"] by auto
  with t show "useLocalStorage_initial parse key initialValue
          (snd (snd (setValue stringify key action storedValue w)))
        = Inr (resolve_action action storedValue)"
    by (simp add: useLocalStorage_initial_Area
        [where entries = "entries(''frext_'' @ key \<mapsto> jt)" and room = room])
next
  assume "\<not> write_succeeds stringify key (resolve_action action storedValue) w"
  then show "snd (snd (setValue stringify key action storedValue w)) = w"
    by (simp add: setValue_not_written)
next
  show "fst (setValue stringify key action storedValue w) = Inr ()"
    by (simp add: setValue_def split: prod.splits sum.splits)
next
  show "fst (snd (setValue stringify key action storedValue w)) = resolve_action action storedValue"
  proof (cases "write_succeeds stringify key (resolve_action action storedValue) w")
    case True
    then obtain jtext where "stringify (resolve_action action storedValue) = Inr jtext"
      by (auto simp: write_succeeds_def split: sum.splits)
    with True show ?thesis
      using setValue_written [of stringify key action storedValue w jtext] by auto
  next
    case False
    then show ?thesis
      by (simp add: setValue_not_written)
  qed
next
  assume "getItem (''frext_'' @ key) w' = Some item \<and> isl (parse item)"
  then show "useLocalStorage_initial parse key initialValue w' = Inr initialValue"
    by (cases "localStorage w'")
      (auto simp: getItem_def useLocalStorage_initial_Area isl_def)
next
  show "\<not> isl (useLocalStorage_initial parse key initialValue w')"
    by (simp add: useLocalStorage_initial_def split: sum.splits)
qed

text \<open>
  The amended claim on a stored boolean (the write succeeds), on a storage with room
  for ten (it does not), and on a stored text that is cut off.
\<close>

theorem useLocalStorage_round_trip_witness:
  "useLocalStorage_initial parse_bool ''darkMode'' False
     (snd (snd (setValue stringify_bool ''darkMode'' (Value True) False first_visit))) = Inr True
   \<and> snd (snd (setValue stringify_bool ''darkMode'' (Value True) False full_storage)) = full_storage
   \<and> useLocalStorage_initial parse_bool ''darkMode'' False corrupt_storage = Inr False"
proof -
  have s: "json_serializable parse_bool stringify_bool (resolve_action (Value True) False)"
    by (simp add: json_serializable_def parse_bool_def stringify_bool_def resolve_action_def)
  have w: "write_succeeds stringify_bool ''darkMode'' (resolve_action (Value True) False) first_visit"
    by (simp add: write_succeeds_def window_def first_visit_def module_loaded_def
        stringify_bool_def resolve_action_def localStorage_setItem_def entry_size_def)
  have n: "\<not> write_succeeds stringify_bool ''darkMode'' (resolve_action (Value True) False)
      full_storage"
    by (simp add: write_succeeds_def window_def full_storage_def module_loaded_def
        stringify_bool_def resolve_action_def localStorage_setItem_def entry_size_def)
  have g: "getItem (''frext_'' @ ''darkMode'') corrupt_storage = Some ''{tru''"
    by (simp add: getItem_def corrupt_storage_def module_loaded_def)
  have p: "isl (parse_bool ''{tru'')"
    by (simp add: parse_bool_def)
  from s w g p
    useLocalStorage_round_trip [of parse_bool stringify_bool "Value True" False "''darkMode''"
        first_visit False corrupt_storage "''{tru''"]
  have a: "useLocalStorage_initial parse_bool ''darkMode'' False
     (snd (snd (setValue stringify_bool ''darkMode'' (Value True) False first_visit))) = Inr True"
    and c: "useLocalStorage_initial parse_bool ''darkMode'' False corrupt_storage = Inr False"
    by (simp_all add: resolve_action_def)
  from n useLocalStorage_round_trip [of parse_bool stringify_bool "Value True" False "''darkMode''"
        full_storage False corrupt_storage "''{tru''"]
  have b: "snd (snd (setValue stringify_bool ''darkMode'' (Value True) False full_storage))
      = full_storage"
    by simp
  from a b c show ?thesis
    by simp
qed

text \<open>
  Claim C9 as stated fails where the storage has no room for the text: \<open>true\<close> is
  JSON-serializable, \<open>setValue\<close> swallows the \<open>QuotaExceededError\<close>, and the new mount
  gives the default \<open>false\<close>.
\<close>

theorem useLocalStorage_round_trip_counterexample:
  "json_serializable parse_bool stringify_bool True
   \<and> window full_storage
   \<and> fst (localStorage_setItem ''frext_darkMode'' ''true'' full_storage) = Inl QuotaExceededError
   \<and> useLocalStorage_initial parse_bool ''darkMode'' False
       (snd (snd (setValue stringify_bool ''darkMode'' (Value True) False full_storage))) = Inr False"
proof -
  have "\<not> write_succeeds stringify_bool ''darkMode'' (resolve_action (Value True) False)
      full_storage"
    by (simp add: write_succeeds_def window_def full_storage_def module_loaded_def
        stringify_bool_def resolve_action_def localStorage_setItem_def entry_size_def)
  then have "snd (snd (setValue stringify_bool ''darkMode'' (Value True) False full_storage))
      = full_storage"
    by (simp add: setValue_not_written)
  moreover have "useLocalStorage_initial parse_bool ''darkMode'' False full_storage = Inr False"
    by (simp add: useLocalStorage_initial_Area [where entries = Map.empty and room = 10]
        full_storage_def module_loaded_def)
  ultimately show ?thesis
    by (simp add: json_serializable_def parse_bool_def stringify_bool_def window_def
        full_storage_def module_loaded_def localStorage_setItem_def entry_size_def)
qed

text \<open>With a blocked storage the initial read gives the default, and \<open>removeValue\<close> returns.\<close>

lemma useLocalStorage_blocked:
  "useLocalStorage_initial parse key initialValue blocked_storage = Inr initialValue
   \<and> removeValue key initialValue storedValue blocked_storage = (Inr (), initialValue, blocked_storage)"
  by (simp add: useLocalStorage_initial_def removeValue_def window_def blocked_storage_def
      module_loaded_def localStorage_getItem_def localStorage_removeItem_def setState_def
      call_api_def)

subsection \<open>useDebounce\<close>

lemma setTimeout_delay_in_range: "delay < 2 ^ 31 \<Longrightarrow> setTimeout_delay delay = delay"
  by (simp add: setTimeout_delay_def)

lemma deps_elapse [simp]: "deps (elapse t st) = deps st"
  by (simp add: elapse_def split: option.splits prod.splits)

text \<open>A render with a changed value lets the due timeout run, clears a pending one and sets its own.\<close>

lemma render_change:
  assumes "deps st \<noteq> (v, delay)"
  shows "render t v delay st =
           (elapse t st)\<lparr>deps := (v, delay), handler := Some (t + setTimeout_delay delay, v)\<rparr>"
  using assms by (simp add: render_def Let_def)

lemma render_pending:
  assumes "handler st = Some (t + delay, v)" and "deps st = (v, delay)"
    and "t' < t + delay" and "v' \<noteq> v" and "delay < 2 ^ 31"
  shows "render t' v' delay st = st\<lparr>deps := (v', delay), handler := Some (t' + delay, v')\<rparr>"
  using assms by (simp add: render_change setTimeout_delay_in_range elapse_def)

lemma renders_rapid:
  assumes "rapid delay t v cs" and "handler st = Some (t + delay, v)" and "deps st = (v, delay)"
    and "delay < 2 ^ 31"
  shows "renders delay cs st =
           st\<lparr>deps := (snd (last ((t, v) # cs)), delay),
              handler := Some (fst (last ((t, v) # cs)) + delay, snd (last ((t, v) # cs)))\<rparr>"
  using assms
proof (induction cs arbitrary: t v st)
  case Nil
  then show ?case by simp
next
  case (Cons c cs)
  obtain t' v' where c: "c = (t', v')" by (cases c)
  with Cons.prems have r: "render t' v' delay st =
      st\<lparr>deps := (v', delay), handler := Some (t' + delay, v')\<rparr>"
    by (simp add: render_pending)
  from Cons.prems c have "rapid delay t' v' cs" by simp
  from Cons.IH [OF this, of "st\<lparr>deps := (v', delay), handler := Some (t' + delay, v')\<rparr>"]
    Cons.prems(4)
  show ?case
    by (simp add: c r)
qed

text \<open>
  Claim C8, as amended. Let \<open>delay\<close> be below \<open>2^31\<close> ms, the range of \<open>setTimeout\<close>, and
  let the hook be in any state, however long it has been mounted, when a rapid
  sequence of changes starts at the time \<open>t1\<close>: each change less than \<open>delay\<close> after the
  one before. Then at every time \<open>T\<close> the calls of \<open>setDebouncedValue\<close> made so far are
  those made before the first change, and after them none while \<open>delay\<close> has not passed
  since the last change, and one call with the final value afterwards. The timeout of
  every earlier value was cleared by the change after it.
\<close>

theorem useDebounce_final_value_only:
  assumes "delay < 2 ^ 31" and "deps st \<noteq> (v1, delay)" and "rapid delay t1 v1 cs"
  shows "propagated (elapse T (renders delay ((t1, v1) # cs) st)) =
           propagated (elapse t1 st) @
           (if fst (last ((t1, v1) # cs)) + delay \<le> T then [snd (last ((t1, v1) # cs))] else [])
    \<and> debouncedValue (elapse T (renders delay ((t1, v1) # cs) st)) =
           (if fst (last ((t1, v1) # cs)) + delay \<le> T then snd (last ((t1, v1) # cs))
            else debouncedValue (elapse t1 st))"
proof -
  let ?st1 = "(elapse t1 st)\<lparr>deps := (v1, delay), handler := Some (t1 + delay, v1)\<rparr>"
  from assms have "renders delay ((t1, v1) # cs) st = renders delay cs ?st1"
    by (simp add: render_change setTimeout_delay_in_range)
  also from assms have "\<dots> = ?st1\<lparr>deps := (snd (last ((t1, v1) # cs)), delay),
      handler := Some (fst (last ((t1, v1) # cs)) + delay, snd (last ((t1, v1) # cs)))\<rparr>"
    by (intro renders_rapid) simp_all
  finally show ?thesis
    by (simp add: elapse_def)
qed

text \<open>
  The amended claim for a hook mounted at time 0 with a delay of 300 ms, on which two
  changes arrive after a second, 100 ms apart.
\<close>

theorem useDebounce_final_value_only_witness:
  "(300::nat) < 2 ^ 31
   \<and> deps (mount 0 ''a'' 300) \<noteq> (''b'', 300)
   \<and> rapid 300 1000 ''b'' [(1100, ''c'')]
   \<and> propagated (elapse 1399 (useDebounce 300 0 ''a'' [(1000, ''b''), (1100, ''c'')])) = [''a'']
   \<and> propagated (elapse 1400 (useDebounce 300 0 ''a'' [(1000, ''b''), (1100, ''c'')]))
       = [''a'', ''c'']
   \<and> debouncedValue (elapse 1400 (useDebounce 300 0 ''a'' [(1000, ''b''), (1100, ''c'')])) = ''c''"
proof -
  have d: "(300::nat) < 2 ^ 31" by simp
  have c: "deps (mount 0 ''a'' 300) \<noteq> (''b'', 300)" by (simp add: mount_def)
  have r: "rapid 300 1000 ''b'' [(1100, ''c'')]" by simp
  have e: "propagated (elapse 1000 (mount 0 ''a'' 300)) = [''a'']"
    by (simp add: elapse_def mount_def setTimeout_delay_def)
  from useDebounce_final_value_only [OF d c r, of 1399]
    useDebounce_final_value_only [OF d c r, of 1400] d c r e
  show ?thesis
    by (simp add: useDebounce_def)
qed

text \<open>
  Claim C8 as stated fails for a delay of \<open>2^31\<close> ms: \<open>setTimeout\<close> takes it for a negative
  number and does not wait, so every value of a sequence that is rapid for this delay
  is propagated.
\<close>

theorem useDebounce_final_value_only_counterexample:
  "rapid 2147483648 0 ''a'' [(100, ''b''), (200, ''c'')]
   \<and> propagated (elapse 200 (useDebounce 2147483648 0 ''a'' [(100, ''b''), (200, ''c'')]))
       = [''a'', ''b'', ''c'']"
  by (simp add: useDebounce_def mount_def render_def elapse_def Let_def setTimeout_delay_def)

text \<open>From the mount on: a rapid sequence that starts within \<open>delay\<close> of the mount.\<close>

lemma useDebounce_from_mount:
  assumes "rapid delay t0 v0 cs" and "delay < 2 ^ 31"
  shows "propagated (elapse T (useDebounce delay t0 v0 cs)) =
           (if fst (last ((t0, v0) # cs)) + delay \<le> T then [snd (last ((t0, v0) # cs))] else [])"
proof -
  have "useDebounce delay t0 v0 cs =
      (mount t0 v0 delay)\<lparr>deps := (snd (last ((t0, v0) # cs)), delay),
         handler := Some (fst (last ((t0, v0) # cs)) + delay, snd (last ((t0, v0) # cs)))\<rparr>"
    unfolding useDebounce_def using assms
    by (intro renders_rapid) (simp_all add: mount_def setTimeout_delay_in_range)
  then show ?thesis
    by (simp add: elapse_def mount_def)
qed

text \<open>A change that comes later than \<open>delay\<close> lets the earlier value through first.\<close>

lemma slow_changes_propagate_each:
  "propagated (elapse 2000 (useDebounce 300 0 ''a'' [(1000, ''b'')])) = [''a'', ''b'']"
  by (simp add: useDebounce_def mount_def render_def elapse_def Let_def setTimeout_delay_def)

end
